theory Spec2Isabelle
  imports Complex_Main "HOL-Library.Word"
begin

unbundle bit_operations_syntax

section \<open>JavaScript values used by Int64\<close>

text \<open>
  A JavaScript number is an IEEE-754 double. Every number this library computes from its
  bytes is integer valued, or is NaN or an infinity, so the model keeps exactly those:
  \<open>Num n\<close> is the double whose value is the integer \<open>n\<close>. Fractional doubles are not
  values of the model; the one place the source makes one (\<open>hi / VAL32\<close> in
  \<open>setValue\<close>) is a local rational. Negative zero is not told apart from zero: the
  source never observes the difference.
\<close>

datatype number = Num int | NaN | PosInfinity | NegInfinity

text \<open>An octet of a \<open>Buffer\<close>.\<close>

type_synonym byte = "8 word"

text \<open>
  Rounding of an integer to the nearest double, ties to even: \<open>expo n\<close> is the
  number of low bits a 53-bit significand cannot hold.
\<close>

function expo :: "int \<Rightarrow> nat" where
  "expo n = (if n < 2 ^ 53 then 0 else Suc (expo (n div 2)))"
  by pat_completeness auto
termination
  by (relation "measure nat") auto

declare expo.simps [simp del]

definition round53_mag :: "int \<Rightarrow> int" where
  "round53_mag a =
     (let e = expo a; q = a div 2 ^ e; r = a mod 2 ^ e
      in if 2 * r < 2 ^ e \<or> (2 * r = 2 ^ e \<and> even q) then q * 2 ^ e else (q + 1) * 2 ^ e)"

definition round53 :: "int \<Rightarrow> int" where
  "round53 n = (if n < 0 then - round53_mag (- n) else round53_mag n)"

text \<open>\<open>a + b\<close>, \<open>a - b\<close> and \<open>a * b\<close> on numbers: exact result, then rounded.\<close>

fun js_add :: "number \<Rightarrow> number \<Rightarrow> number" where
  "js_add (Num a) (Num b) = Num (round53 (a + b))"
| "js_add NaN _ = NaN"
| "js_add _ NaN = NaN"
| "js_add PosInfinity NegInfinity = NaN"
| "js_add NegInfinity PosInfinity = NaN"
| "js_add PosInfinity _ = PosInfinity"
| "js_add NegInfinity _ = NegInfinity"
| "js_add _ PosInfinity = PosInfinity"
| "js_add _ NegInfinity = NegInfinity"

fun js_neg :: "number \<Rightarrow> number" where
  "js_neg (Num a) = Num (- a)"
| "js_neg NaN = NaN"
| "js_neg PosInfinity = NegInfinity"
| "js_neg NegInfinity = PosInfinity"

definition js_sub :: "number \<Rightarrow> number \<Rightarrow> number" where
  "js_sub a b = js_add a (js_neg b)"

fun js_mul :: "number \<Rightarrow> number \<Rightarrow> number" where
  "js_mul (Num a) (Num b) = Num (round53 (a * b))"
| "js_mul NaN _ = NaN"
| "js_mul _ NaN = NaN"
| "js_mul PosInfinity (Num b) = (if b = 0 then NaN else if 0 < b then PosInfinity else NegInfinity)"
| "js_mul NegInfinity (Num b) = (if b = 0 then NaN else if 0 < b then NegInfinity else PosInfinity)"
| "js_mul (Num a) PosInfinity = (if a = 0 then NaN else if 0 < a then PosInfinity else NegInfinity)"
| "js_mul (Num a) NegInfinity = (if a = 0 then NaN else if 0 < a then NegInfinity else PosInfinity)"
| "js_mul PosInfinity PosInfinity = PosInfinity"
| "js_mul NegInfinity NegInfinity = PosInfinity"
| "js_mul PosInfinity NegInfinity = NegInfinity"
| "js_mul NegInfinity PosInfinity = NegInfinity"

text \<open>\<open>a >= b\<close>, \<open>a > b\<close>, \<open>a < b\<close>: false as soon as one side is NaN.\<close>

fun js_ge :: "number \<Rightarrow> number \<Rightarrow> bool" where
  "js_ge (Num a) (Num b) = (b \<le> a)"
| "js_ge NaN _ = False"
| "js_ge _ NaN = False"
| "js_ge PosInfinity _ = True"
| "js_ge _ NegInfinity = True"
| "js_ge NegInfinity _ = False"
| "js_ge _ PosInfinity = False"

fun js_lt :: "number \<Rightarrow> number \<Rightarrow> bool" where
  "js_lt (Num a) (Num b) = (a < b)"
| "js_lt NaN _ = False"
| "js_lt _ NaN = False"
| "js_lt PosInfinity _ = False"
| "js_lt _ NegInfinity = False"
| "js_lt NegInfinity _ = True"
| "js_lt _ PosInfinity = True"

text \<open>
  \<open>ToInt32\<close> and \<open>ToUint32\<close>, the conversions every bitwise operator applies to its
  operands: NaN and the infinities become 0, an integer is taken modulo \<open>2^32\<close>.
\<close>

fun ToUint32 :: "number \<Rightarrow> int" where
  "ToUint32 (Num a) = a mod 2 ^ 32"
| "ToUint32 _ = 0"

definition ToInt32 :: "number \<Rightarrow> int" where
  "ToInt32 x = (let u = ToUint32 x in if 2 ^ 31 \<le> u then u - 2 ^ 32 else u)"

text \<open>
  Reading \<open>b[i]\<close>: an index past the end of a Buffer gives \<open>undefined\<close>, here \<open>None\<close>.
  Used as a number, \<open>undefined\<close> is NaN.
\<close>

definition get :: "byte list \<Rightarrow> nat \<Rightarrow> byte option" where
  "get b i = (if i < length b then Some (b ! i) else None)"

fun ToNumber :: "byte option \<Rightarrow> number" where
  "ToNumber None = NaN"
| "ToNumber (Some w) = Num (uint w)"

text \<open>
  Writing \<open>b[i] = v\<close>: the number is stored modulo 256 (\<open>ToUint8\<close>), and a write
  past the end is dropped, which is what \<open>list_update\<close> does.
\<close>

fun ToUint8 :: "number \<Rightarrow> byte" where
  "ToUint8 (Num a) = word_of_int a"
| "ToUint8 _ = 0"

definition put :: "byte list \<Rightarrow> nat \<Rightarrow> number \<Rightarrow> byte list" where
  "put b i v = b[i := ToUint8 v]"

text \<open>
  The bitwise operators: \<open>&\<close>, \<open>|\<close>, \<open>^\<close>, \<open>~\<close>, \<open><<\<close> and \<open>>>\<close> work on
  \<open>ToInt32\<close> of their operands and give a signed 32-bit result; \<open>>>>\<close> works on
  \<open>ToUint32\<close>. The shift counts of the source are constants below 32.
\<close>

definition js_band :: "number \<Rightarrow> number \<Rightarrow> number" where
  "js_band a b = Num (ToInt32 a AND ToInt32 b)"

definition js_bor :: "number \<Rightarrow> number \<Rightarrow> number" where
  "js_bor a b = Num (ToInt32 a OR ToInt32 b)"

definition js_bxor :: "number \<Rightarrow> number \<Rightarrow> number" where
  "js_bxor a b = Num (ToInt32 a XOR ToInt32 b)"

definition js_bnot :: "number \<Rightarrow> number" where
  "js_bnot a = Num (NOT (ToInt32 a))"

definition js_shl :: "number \<Rightarrow> nat \<Rightarrow> number" where
  "js_shl a k = Num (ToInt32 (Num (push_bit k (ToInt32 a))))"

definition js_sar :: "number \<Rightarrow> nat \<Rightarrow> number" where
  "js_sar a k = Num (drop_bit k (ToInt32 a))"

definition js_shr :: "number \<Rightarrow> nat \<Rightarrow> number" where
  "js_shr a k = Num (drop_bit k (ToUint32 a))"

text \<open>\<open>ToBoolean\<close> of a number: 0 and NaN are false.\<close>

fun truthy :: "number \<Rightarrow> bool" where
  "truthy (Num a) = (a \<noteq> 0)"
| "truthy NaN = False"
| "truthy _ = True"

text \<open>\<open>a === b\<close> on numbers: NaN equals nothing.\<close>

fun js_eq :: "number \<Rightarrow> number \<Rightarrow> bool" where
  "js_eq NaN _ = False"
| "js_eq _ NaN = False"
| "js_eq a b = (a = b)"

text \<open>
  \<open>a % b\<close> takes the sign of the dividend. \<open>Math.floor(a / b)\<close> is modelled as one
  operation: for integer-valued \<open>a\<close> below \<open>2^53\<close> in magnitude and \<open>b > 0\<close> the
  correctly rounded quotient cannot reach the next integer, so its floor is \<open>a div b\<close>.
  The source divides by the positive constants \<open>POW10_11\<close> and \<open>POW2_32\<close> only.
\<close>

fun js_rem :: "number \<Rightarrow> number \<Rightarrow> number" where
  "js_rem (Num a) (Num b) =
     (if b = 0 then NaN else if 0 \<le> a then Num (a mod \<bar>b\<bar>) else Num (- ((- a) mod \<bar>b\<bar>)))"
| "js_rem (Num a) PosInfinity = Num a"
| "js_rem (Num a) NegInfinity = Num a"
| "js_rem _ _ = NaN"

fun js_floor_div :: "number \<Rightarrow> number \<Rightarrow> number" where
  "js_floor_div (Num a) (Num b) =
     (if b = 0 then (if a = 0 then NaN else if 0 < a then PosInfinity else NegInfinity)
      else Num (a div b))"
| "js_floor_div PosInfinity (Num b) = (if 0 \<le> b then PosInfinity else NegInfinity)"
| "js_floor_div NegInfinity (Num b) = (if 0 \<le> b then NegInfinity else PosInfinity)"
| "js_floor_div (Num a) PosInfinity = (if 0 \<le> a then Num 0 else Num (- 1))"
| "js_floor_div (Num a) NegInfinity = (if 0 < a then Num (- 1) else Num 0)"
| "js_floor_div _ _ = NaN"

subsection \<open>Numbers to strings and back\<close>

text \<open>
  Strings are lists of code units below 256. \<open>Number.prototype.toString(radix)\<close> of an
  integer below \<open>10^21\<close> in magnitude is its plain digit string; every number the source
  renders is below \<open>2^53\<close>, NaN or an infinity.
\<close>

definition digit_char :: "int \<Rightarrow> char" where
  "digit_char d = (if d < 10 then char_of (48 + d) else char_of (87 + d))"

function radix_digits :: "int \<Rightarrow> int \<Rightarrow> string" where
  "radix_digits r n =
     (if r < 2 \<or> n < r then [digit_char n]
      else radix_digits r (n div r) @ [digit_char (n mod r)])"
  by pat_completeness auto
termination
  by (relation "measure (\<lambda>(r, n). nat n)") (auto intro: int_div_less_self)

declare radix_digits.simps [simp del]

fun Number_toString :: "number \<Rightarrow> int \<Rightarrow> string" where
  "Number_toString (Num a) r =
     (if a < 0 then ''-'' @ radix_digits r (- a) else radix_digits r a)"
| "Number_toString NaN r = ''NaN''"
| "Number_toString PosInfinity r = ''Infinity''"
| "Number_toString NegInfinity r = ''-Infinity''"

text \<open>\<open>String(x)\<close> of a number.\<close>

definition String :: "number \<Rightarrow> string" where
  "String x = Number_toString x 10"

text \<open>\<open>s.slice(start, end)\<close>, \<open>s.slice(start)\<close> and \<open>s.substr(start)\<close> with a negative start.\<close>

definition slice_index :: "nat \<Rightarrow> int \<Rightarrow> nat" where
  "slice_index len k = (if k < 0 then nat (max (int len + k) 0) else min (nat k) len)"

definition slice2 :: "string \<Rightarrow> int \<Rightarrow> int \<Rightarrow> string" where
  "slice2 s start end =
     (let from = slice_index (length s) start; to = slice_index (length s) end
      in take (to - from) (drop from s))"

definition slice1 :: "string \<Rightarrow> int \<Rightarrow> string" where
  "slice1 s start = drop (slice_index (length s) start) s"

text \<open>The value of a digit in radix 16 and in radix 10.\<close>

definition hex_digit :: "char \<Rightarrow> int option" where
  "hex_digit c =
     (let n = of_char c :: int
      in if 48 \<le> n \<and> n \<le> 57 then Some (n - 48)
         else if 97 \<le> n \<and> n \<le> 102 then Some (n - 87)
         else if 65 \<le> n \<and> n \<le> 70 then Some (n - 55)
         else None)"

definition dec_digit :: "char \<Rightarrow> int option" where
  "dec_digit c = (let n = of_char c :: int in if 48 \<le> n \<and> n \<le> 57 then Some (n - 48) else None)"

definition is_space :: "char \<Rightarrow> bool" where
  "is_space c \<longleftrightarrow> (of_char c :: int) \<in> {9, 10, 11, 12, 13, 32, 160}"

text \<open>The integer a digit string denotes, most significant digit first.\<close>

fun digits_val :: "int \<Rightarrow> int list \<Rightarrow> int" where
  "digits_val r [] = 0"
| "digits_val r (d # ds) = d * r ^ length ds + digits_val r ds"

text \<open>
  \<open>parseInt(s, 16)\<close>: leading white space is skipped, then a sign, then a \<open>0x\<close> or \<open>0X\<close>
  prefix; the longest run of hexadecimal digits that follows is the value, NaN if it is
  empty. The result is the nearest double.
\<close>

definition parseInt16 :: "string \<Rightarrow> number" where
  "parseInt16 s =
     (let s1 = dropWhile is_space s;
          neg = (take 1 s1 = ''-'');
          s2 = (if take 1 s1 = ''-'' \<or> take 1 s1 = ''+'' then drop 1 s1 else s1);
          s3 = (if take 2 s2 = ''0x'' \<or> take 2 s2 = ''0X'' then drop 2 s2 else s2);
          z = takeWhile (\<lambda>c. hex_digit c \<noteq> None) s3
      in if z = [] then NaN
         else let v = round53 (digits_val 16 (map (the \<circ> hex_digit) z))
              in Num (if neg then - v else v))"

text \<open>
  \<open>+text\<close> (\<open>StringToNumber\<close>), on the strings \<open>fromDecimalString\<close> is written for: an
  optional sign followed by decimal digits gives the nearest double, the empty string
  gives 0. Every other string is NaN here; the fraction, exponent, white space and radix
  prefix forms that JavaScript also reads are outside the model, and every statement
  below about \<open>fromDecimalString\<close> is restricted to signed digit strings.
\<close>

definition StringToNumber :: "string \<Rightarrow> number" where
  "StringToNumber s =
     (let neg = (take 1 s = ''-'');
          ds = (if take 1 s = ''-'' \<or> take 1 s = ''+'' then drop 1 s else s)
      in if s = [] then Num 0
         else if ds = [] \<or> (\<exists>c \<in> set ds. dec_digit c = None) then NaN
         else let v = round53 (digits_val 10 (map (the \<circ> dec_digit) ds))
              in Num (if neg then - v else v))"

section \<open>The Int64 object\<close>

record Int64 =
  buffer :: "byte list"
  offset :: nat

datatype error = RangeError | PlainError

definition VAL32 :: int where "VAL32 = 0x100000000"
definition POW2_24 :: int where "POW2_24 = 2 ^ 24"
definition POW2_31 :: int where "POW2_31 = 2 ^ 31"
definition POW2_32 :: int where "POW2_32 = 2 ^ 32"
definition POW10_11 :: int where "POW10_11 = 10 ^ 11"
definition MAX_INT :: int where "MAX_INT = 2 ^ 53"

text \<open>\<open>this.buffer[this.offset + i]\<close> as a number.\<close>

definition rd :: "byte list \<Rightarrow> nat \<Rightarrow> number" where
  "rd b i = ToNumber (get b i)"

subsection \<open>Two's complement in place\<close>

text \<open>
  \<^verbatim>\<open>
  private _2scomp(): void {
    const b = this.buffer
    const o = this.offset
    let carry = 1
    for (let i = o + 7; i >= o; i--) {
      let v = (b[i] ^ 0xff) + carry
      b[i] = v & 0xff
      carry = v >> 8
    }
  }
  \<close>
  The loop counter of the model is \<open>i - o + 1\<close>; \<open>off\<close> is the source's \<open>o\<close>.
\<close>

fun twoscomp_loop :: "byte list \<Rightarrow> nat \<Rightarrow> nat \<Rightarrow> number \<Rightarrow> byte list" where
  "twoscomp_loop b off 0 carry = b"
| "twoscomp_loop b off (Suc k) carry =
     (let v = js_add (js_bxor (rd b (off + k)) (Num 0xff)) carry
      in twoscomp_loop (put b (off + k) (js_band v (Num 0xff))) off k (js_sar v 8))"

definition twoscomp :: "Int64 \<Rightarrow> Int64" where
  "twoscomp this = this\<lparr>buffer := twoscomp_loop (buffer this) (offset this) 8 (Num 1)\<rparr>"

subsection \<open>setValue and the constructor\<close>

text \<open>
  \<^verbatim>\<open>
  setValue(hi: string|number, lo?: number): void {
    let negate = false
    if (arguments.length === 1) {
      if (typeof hi === 'number') {
        negate = hi < 0
        hi = Math.abs(hi)
        lo = hi % VAL32
        hi = hi / VAL32
        if (hi > VAL32) { throw new RangeError(hi  + ' is outside Int64 range') }
        hi = hi | 0
      } else if (typeof hi === 'string') {
        hi = (hi + '').replace(/^0x/, '')
        const loStr = hi.substr(-8)
        hi = hi.length > 8 ? hi.substr(0, hi.length - 8) : ''
        hi = parseInt(hi, 16) as number
        lo = parseInt(loStr, 16)
      } else {
        throw new Error(hi + ' must be a Number or String')
      }
    }
    const b = this.buffer
    const o = this.offset
    for (let i = 7; i >= 0; i--) {
      b[o + i] = lo & 0xff
      lo = i === 4 ? hi : lo >>> 8
    }
    if (negate) { this._2scomp() }
  }
  \<close>
  The argument list is a datatype; with no argument both \<open>hi\<close> and \<open>lo\<close> are
  \<open>undefined\<close>, which the bitwise operators read as NaN does.
\<close>

datatype jsarg = ArgNumber number | ArgString string | ArgOther

datatype arguments = Args0 | Args1 jsarg | Args2 number number

text \<open>
  The number branch. The quotient \<open>hi / VAL32\<close> of an integer-valued double by a power
  of two is exact, so it is a rational here; \<open>hi | 0\<close> truncates it and wraps it to 32
  bits.
\<close>

fun decompose_number :: "number \<Rightarrow> error + (bool \<times> number \<times> number)" where
  "decompose_number (Num n) =
     (let negate = (n < 0);
          a = \<bar>n\<bar>;
          lo = js_rem (Num a) (Num VAL32);
          q = (of_int a :: rat) / of_int VAL32
      in if q > of_int VAL32 then Inl RangeError
         else Inr (negate, js_bor (Num \<lfloor>q\<rfloor>) (Num 0), lo))"
| "decompose_number NaN = Inr (False, js_bor NaN (Num 0), NaN)"
| "decompose_number PosInfinity = Inl RangeError"
| "decompose_number NegInfinity = Inl RangeError"

declare decompose_number.simps [simp del]

definition replace_0x :: "string \<Rightarrow> string" where
  "replace_0x s = (if take 2 s = ''0x'' then drop 2 s else s)"

definition decompose_string :: "string \<Rightarrow> number \<times> number" where
  "decompose_string s =
     (let h = replace_0x s;
          loStr = slice1 h (- 8);
          hiStr = (if length h > 8 then take (length h - 8) h else [])
      in (parseInt16 hiStr, parseInt16 loStr))"

fun setValue_loop :: "byte list \<Rightarrow> nat \<Rightarrow> nat \<Rightarrow> number \<Rightarrow> number \<Rightarrow> byte list" where
  "setValue_loop b off 0 lo hi = b"
| "setValue_loop b off (Suc i) lo hi =
     setValue_loop (put b (off + i) (js_band lo (Num 0xff))) off i
       (if i = 4 then hi else js_shr lo 8) hi"

definition copy_bytes :: "Int64 \<Rightarrow> bool \<Rightarrow> number \<Rightarrow> number \<Rightarrow> Int64" where
  "copy_bytes this negate hi lo =
     (let this' = this\<lparr>buffer := setValue_loop (buffer this) (offset this) 8 lo hi\<rparr>
      in if negate then twoscomp this' else this')"

fun setValue :: "Int64 \<Rightarrow> arguments \<Rightarrow> error + Int64" where
  "setValue this (Args1 (ArgNumber n)) =
     (case decompose_number n of
        Inl e \<Rightarrow> Inl e
      | Inr (negate, hi, lo) \<Rightarrow> Inr (copy_bytes this negate hi lo))"
| "setValue this (Args1 (ArgString s)) =
     (case decompose_string s of (hi, lo) \<Rightarrow> Inr (copy_bytes this False hi lo))"
| "setValue this (Args1 ArgOther) = Inl PlainError"
| "setValue this (Args2 hi lo) = Inr (copy_bytes this False hi lo)"
| "setValue this Args0 = Inr (copy_bytes this False NaN NaN)"

text \<open>
  \<^verbatim>\<open>
  constructor(a1?: Buffer|string|number, a2: number = 0) {
    if (a1 instanceof Buffer) {
      this.buffer = a1
      this.offset = a2
    } else {
      this.buffer = this.buffer || Buffer.alloc(8)
      this.offset = 0
      this.setValue.apply(this, arguments)
    }
  }
  \<close>
\<close>

datatype ctor_args = FromBuffer "byte list" nat | FromArgs arguments

fun Construct :: "ctor_args \<Rightarrow> error + Int64" where
  "Construct (FromBuffer a1 a2) = Inr \<lparr>buffer = a1, offset = a2\<rparr>"
| "Construct (FromArgs args) = setValue \<lparr>buffer = replicate 8 0, offset = 0\<rparr> args"

subsection \<open>toNumber, valueOf, toString\<close>

text \<open>
  \<^verbatim>\<open>
  toNumber(allowImprecise: boolean = false): number {
    const b = this.buffer
    const o = this.offset
    const negate = b[o] & 0x80
    let x = 0
    let carry = 1
    for (let i = 7, m = 1; i >= 0; i--, m *= 256) {
      let v = b[o + i]
      if (negate) {
        v = (v ^ 0xff) + carry
        carry = v >> 8
        v = v & 0xff
      }
      x += v * m
    }
    if (!allowImprecise && x >= Int64.MAX_INT) {
      return negate ? -Infinity : Infinity
    }
    return negate ? -x : x
  }
  \<close>
  The loop counter of the model is \<open>i + 1\<close>.
\<close>

fun toNumber_loop ::
  "byte list \<Rightarrow> nat \<Rightarrow> number \<Rightarrow> nat \<Rightarrow> number \<Rightarrow> number \<Rightarrow> number \<Rightarrow> number" where
  "toNumber_loop b off negate 0 m x carry = x"
| "toNumber_loop b off negate (Suc i) m x carry =
     (let v = rd b (off + i)
      in if truthy negate then
           (let v1 = js_add (js_bxor v (Num 0xff)) carry;
                carry1 = js_sar v1 8;
                v2 = js_band v1 (Num 0xff)
            in toNumber_loop b off negate i (js_mul m (Num 256)) (js_add x (js_mul v2 m)) carry1)
         else toNumber_loop b off negate i (js_mul m (Num 256)) (js_add x (js_mul v m)) carry)"

definition toNumber :: "Int64 \<Rightarrow> bool \<Rightarrow> number" where
  "toNumber this allowImprecise =
     (let b = buffer this; off = offset this;
          negate = js_band (rd b off) (Num 0x80);
          x = toNumber_loop b off negate 8 (Num 1) (Num 0) (Num 1)
      in if \<not> allowImprecise \<and> js_ge x (Num MAX_INT)
         then (if truthy negate then NegInfinity else PosInfinity)
         else (if truthy negate then js_neg x else x))"

definition valueOf :: "Int64 \<Rightarrow> number" where
  "valueOf this = toNumber this False"

text \<open>\<open>toString(radix = 10) { return this.valueOf().toString(radix) }\<close>\<close>

definition toString :: "Int64 \<Rightarrow> int \<Rightarrow> string" where
  "toString this radix = Number_toString (valueOf this) radix"

subsection \<open>toOctetString\<close>

text \<open>
  \<^verbatim>\<open>
  const _HEX: string[] = []
  for (let i = 0; i < 256; i++) {
    _HEX[i] = (i > 0xF ? '' : '0') + i.toString(16)
  }
  toOctetString(sep: string = '') {
    const out = new Array(8)
    const b = this.buffer
    const o = this.offset
    for (let i = 0; i < 8; i++) {
      out[i] = _HEX[b[o + i]]
    }
    return out.join(sep)
  }
  \<close>
  \<open>_HEX[undefined]\<close> is \<open>undefined\<close>, which \<open>join\<close> renders as the empty string.
\<close>

definition HEX :: "byte \<Rightarrow> string" where
  "HEX w = (if uint w > 0xF then [] else ''0'') @ Number_toString (Num (uint w)) 16"

fun join :: "string \<Rightarrow> string list \<Rightarrow> string" where
  "join sep [] = []"
| "join sep [x] = x"
| "join sep (x # y # ys) = x @ sep @ join sep (y # ys)"

definition toOctetString :: "Int64 \<Rightarrow> string \<Rightarrow> string" where
  "toOctetString this sep =
     join sep (map (\<lambda>i. case get (buffer this) (offset this + i) of
                            None \<Rightarrow> [] | Some w \<Rightarrow> HEX w) [0..<8])"

subsection \<open>toDecimalString\<close>

text \<open>
  \<^verbatim>\<open>
  toDecimalString(): string {
    let b = this.buffer
    let o = this.offset
    if ((!b[o] && !(b[o + 1] & 0xe0)) ||
        (!~b[o] && !~(b[o + 1] & 0xe0))) {
      // The magnitude is small enough.
      return this.toString()
    } else {
      let negative = b[o] & 0x80
      if (negative) {
        // 2's complement
        let incremented = false
        let buffer = Buffer.alloc(8)
        for (let i = 7; i >= 0; --i) {
          buffer[i] = (~b[o + i] + (incremented ? 0 : 1)) & 0xff
          incremented =  incremented || !!b[o + i]
        }
        b = buffer
      }
      let high2 = b[o + 1] + (b[o] << 8)
      let low = b[o + 7] + (b[o + 6] << 8) + (b[o + 5] << 16)
          + b[o + 4] * POW2_24
          + (b[o + 3] + (b[o + 2] << 8)) * POW2_32 + high2 * 74976710656
      let high = Math.floor(low / POW10_11) + high2 * 2814
      const lowStr = ('00000000000' + String(low % POW10_11)).slice(-11)
      return (negative ? '-' : '') + String(high) + lowStr
    }
  }
  \<close>
  The loop counter of the model is \<open>i + 1\<close>. After \<open>b = buffer\<close> the reads go on
  using the offset \<open>o\<close> of the original buffer, as written.
\<close>

fun magnitude_loop :: "byte list \<Rightarrow> nat \<Rightarrow> byte list \<Rightarrow> nat \<Rightarrow> bool \<Rightarrow> byte list" where
  "magnitude_loop b off buf 0 incremented = buf"
| "magnitude_loop b off buf (Suc i) incremented =
     magnitude_loop b off
       (put buf i (js_band (js_add (js_bnot (rd b (off + i)))
                                   (if incremented then Num 0 else Num 1)) (Num 0xff)))
       i (incremented \<or> truthy (rd b (off + i)))"

definition toDecimalString :: "Int64 \<Rightarrow> string" where
  "toDecimalString this =
     (let b = buffer this; off = offset this
      in if (\<not> truthy (rd b off) \<and> \<not> truthy (js_band (rd b (off + 1)) (Num 0xe0))) \<or>
            (\<not> truthy (js_bnot (rd b off)) \<and>
             \<not> truthy (js_bnot (js_band (rd b (off + 1)) (Num 0xe0))))
         then toString this 10
         else
           (let negative = js_band (rd b off) (Num 0x80);
                b = (if truthy negative then magnitude_loop b off (replicate 8 0) 8 False else b);
                high2 = js_add (rd b (off + 1)) (js_shl (rd b off) 8);
                low = js_add (js_add (js_add (js_add (js_add
                        (rd b (off + 7))
                        (js_shl (rd b (off + 6)) 8))
                        (js_shl (rd b (off + 5)) 16))
                        (js_mul (rd b (off + 4)) (Num POW2_24)))
                        (js_mul (js_add (rd b (off + 3)) (js_shl (rd b (off + 2)) 8)) (Num POW2_32)))
                        (js_mul high2 (Num 74976710656));
                high = js_add (js_floor_div low (Num POW10_11)) (js_mul high2 (Num 2814));
                lowStr = slice1 (''00000000000'' @ String (js_rem low (Num POW10_11))) (- 11)
            in (if truthy negative then ''-'' else []) @ String high @ lowStr))"

subsection \<open>fromDecimalString\<close>

text \<open>
  \<^verbatim>\<open>
  static fromDecimalString(text: string): Int64 {
    let negative = text.charAt(0) === '-'
    if (text.length < (negative ? 17 : 16)) {
      // The magnitude is smaller than 2^53.
      return new Int64(+text)
    } else if (text.length > (negative ? 20 : 19)) {
      throw new RangeError('Too many digits for Int64: ' + text)
    } else {
      // Most significant (up to 5) digits
      let high5 = +text.slice(negative ? 1 : 0, -15)
      let low = +text.slice(-15) + high5 * 2764472320
      let high = Math.floor(low / POW2_32) + high5 * 232830
      low = low % POW2_32
      if (high >= POW2_31 &&
          !(negative && high === POW2_31 && low === 0)
         ) {
        throw new RangeError('The magnitude is too large for Int64.')
      }
      if (negative) {
        // 2's complement
        high = ~high
        if (low === 0) {
          high = (high + 1) & 0xffffffff
        } else {
          low = ~low + 1
        }
        high = 0x80000000 | high
      }
      return new Int64(high, low)
    }
  }
  \<close>
\<close>

definition negate_pair :: "number \<Rightarrow> number \<Rightarrow> number \<times> number" where
  "negate_pair high low =
     (let high1 = js_bnot high;
          (high2, low2) =
            (if js_eq low (Num 0) then (js_band (js_add high1 (Num 1)) (Num 0xffffffff), low)
             else (high1, js_add (js_bnot low) (Num 1)))
      in (js_bor (Num 0x80000000) high2, low2))"

definition fromDecimalString :: "string \<Rightarrow> error + Int64" where
  "fromDecimalString text =
     (let negative = (take 1 text = ''-'')
      in if length text < (if negative then 17 else 16)
         then Construct (FromArgs (Args1 (ArgNumber (StringToNumber text))))
         else if length text > (if negative then 20 else 19) then Inl RangeError
         else
           (let high5 = StringToNumber (slice2 text (if negative then 1 else 0) (- 15));
                low0 = js_add (StringToNumber (slice1 text (- 15))) (js_mul high5 (Num 2764472320));
                high = js_add (js_floor_div low0 (Num POW2_32)) (js_mul high5 (Num 232830));
                low = js_rem low0 (Num POW2_32)
            in if js_ge high (Num POW2_31) \<and>
                  \<not> (negative \<and> js_eq high (Num POW2_31) \<and> js_eq low (Num 0))
               then Inl RangeError
               else (case (if negative then negate_pair high low else (high, low)) of
                       (high', low') \<Rightarrow> Construct (FromArgs (Args2 high' low')))))"

section \<open>Reading the eight bytes\<close>

text \<open>The invariant of the data model: the eight bytes of the value lie inside the buffer.\<close>

definition valid :: "Int64 \<Rightarrow> bool" where
  "valid x \<longleftrightarrow> offset x + 8 \<le> length (buffer x)"

text \<open>The eight logical bytes, and the integers they encode.\<close>

definition window :: "Int64 \<Rightarrow> byte list" where
  "window x = take 8 (drop (offset x) (buffer x))"

fun be_val :: "byte list \<Rightarrow> int" where
  "be_val [] = 0"
| "be_val (w # ws) = uint w * 256 ^ length ws + be_val ws"

definition int64_value :: "Int64 \<Rightarrow> int" where
  "int64_value x = (let u = be_val (window x) in if 2 ^ 63 \<le> u then u - 2 ^ 64 else u)"

subsection \<open>compare and equals\<close>

text \<open>
  \<^verbatim>\<open>
  compare(other: Int64): number {
    if ((this.buffer[this.offset] & 0x80) != (other.buffer[other.offset] & 0x80)) {
      return other.buffer[other.offset] - this.buffer[this.offset]
    }
    for (let i = 0; i < 8; i++) {
      if (this.buffer[this.offset + i] !== other.buffer[other.offset + i]) {
        return this.buffer[this.offset + i] - other.buffer[other.offset + i]
      }
    }
    return 0
  }
  equals(other: Int64) { return this.compare(other) === 0 }
  \<close>
\<close>

function compare_loop :: "Int64 \<Rightarrow> Int64 \<Rightarrow> nat \<Rightarrow> number" where
  "compare_loop this other i =
     (if i < 8 then
        (if get (buffer this) (offset this + i) \<noteq> get (buffer other) (offset other + i)
         then js_sub (rd (buffer this) (offset this + i)) (rd (buffer other) (offset other + i))
         else compare_loop this other (i + 1))
      else Num 0)"
  by pat_completeness auto
termination
  by (relation "measure (\<lambda>(this, other, i). 8 - i)") auto

declare compare_loop.simps [simp del]

definition compare :: "Int64 \<Rightarrow> Int64 \<Rightarrow> number" where
  "compare this other =
     (if js_band (rd (buffer this) (offset this)) (Num 0x80)
         \<noteq> js_band (rd (buffer other) (offset other)) (Num 0x80)
      then js_sub (rd (buffer other) (offset other)) (rd (buffer this) (offset this))
      else compare_loop this other 0)"

definition equals :: "Int64 \<Rightarrow> Int64 \<Rightarrow> bool" where
  "equals this other \<longleftrightarrow> js_eq (compare this other) (Num 0)"

section \<open>Rounding to a double\<close>

lemma expo_small: "n < 2 ^ 53 \<Longrightarrow> expo n = 0"
  by (simp add: expo.simps)

lemma expo_large: "2 ^ 53 \<le> n \<Longrightarrow> expo n = Suc (expo (n div 2))"
  by (subst expo.simps) simp

lemma round53_mag_small: "n < 2 ^ 53 \<Longrightarrow> round53_mag n = n"
  by (simp add: round53_mag_def expo_small)

lemma expo_shift: "0 \<le> v \<Longrightarrow> v < 2 ^ 53 \<Longrightarrow> expo (v * 2 ^ k) \<le> k"
proof (induction k)
  case 0
  then show ?case by (simp add: expo_small)
next
  case (Suc k)
  show ?case
  proof (cases "v * 2 ^ Suc k < 2 ^ 53")
    case True
    then show ?thesis by (simp add: expo_small)
  next
    case False
    then have "expo (v * 2 ^ Suc k) = Suc (expo ((v * 2 ^ Suc k) div 2))"
      by (intro expo_large) simp
    also have "(v * 2 ^ Suc k) div 2 = v * 2 ^ k"
      by simp
    finally show ?thesis using Suc by simp
  qed
qed

lemma round53_mag_shift:
  assumes "0 \<le> v" "v < 2 ^ 53"
  shows "round53_mag (v * 2 ^ k) = v * 2 ^ k"
proof -
  define e where "e = expo (v * 2 ^ k)"
  have "e \<le> k" unfolding e_def using assms by (rule expo_shift)
  then obtain d where k: "k = e + d" using le_Suc_ex by blast
  have m: "(v * 2 ^ k) mod 2 ^ e = 0"
    by (simp add: k power_add)
  have q: "(v * 2 ^ k) div 2 ^ e * 2 ^ e = v * 2 ^ k"
    using m by (metis add.right_neutral div_mult_mod_eq)
  show ?thesis
    unfolding round53_mag_def Let_def e_def [symmetric] using m q by simp
qed

lemma expo_quotient:
  "2 ^ 53 \<le> n \<Longrightarrow> 0 < expo n \<and> 2 ^ 52 \<le> n div 2 ^ expo n"
proof (induction n rule: expo.induct)
  case (1 n)
  have e: "expo n = Suc (expo (n div 2))" using 1(2) by (rule expo_large)
  show ?case
  proof (cases "n div 2 < 2 ^ 53")
    case True
    then have "expo (n div 2) = 0" by (rule expo_small)
    with e 1(2) show ?thesis by simp
  next
    case False
    then have "2 ^ 52 \<le> (n div 2) div 2 ^ expo (n div 2)"
      using 1 by simp
    then show ?thesis using e by (simp add: zdiv_zmult2_eq)
  qed
qed

lemma round53_mag_large:
  assumes "2 ^ 53 \<le> n"
  shows "2 ^ 53 \<le> round53_mag n"
proof -
  define e where "e = expo n"
  define q where "q = n div 2 ^ e"
  have e: "0 < e" and q: "2 ^ 52 \<le> q"
    using expo_quotient [OF assms] by (simp_all add: e_def q_def)
  have "(2::int) ^ 1 \<le> 2 ^ e" using e by (intro power_increasing) simp_all
  then have p: "(2::int) \<le> 2 ^ e" by simp
  have "(2::int) ^ 53 = 2 ^ 52 * 2" by simp
  also have "\<dots> \<le> q * 2 ^ e" using q p by (intro mult_mono) simp_all
  finally have l: "2 ^ 53 \<le> q * 2 ^ e" .
  have "q * 2 ^ e \<le> (q + 1) * 2 ^ e" by (simp add: distrib_right)
  with l have u: "2 ^ 53 \<le> (q + 1) * 2 ^ e" by linarith
  show ?thesis
    unfolding round53_mag_def Let_def e_def [symmetric] q_def [symmetric]
    using l u by (simp only: if_split) blast
qed

lemma round53_exact: "\<bar>n\<bar> \<le> 2 ^ 53 \<Longrightarrow> round53 n = n"
proof -
  assume a: "\<bar>n\<bar> \<le> 2 ^ 53"
  have p: "round53_mag (2 ^ 53) = 2 ^ 53"
    using round53_mag_shift [of 1 53] by simp
  have "0 \<le> m \<Longrightarrow> m \<le> 2 ^ 53 \<Longrightarrow> round53_mag m = m" for m
    using p round53_mag_small [of m] by (cases "m = 2 ^ 53") auto
  then show ?thesis using a by (auto simp: round53_def)
qed

lemma round53_shift:
  assumes "0 \<le> v" "v < 2 ^ 53"
  shows "round53 (v * 2 ^ k) = v * 2 ^ k"
proof -
  have "\<not> v * 2 ^ k < 0" using assms(1) by (simp add: not_less)
  then show ?thesis using assms by (simp add: round53_def round53_mag_shift)
qed

lemma round53_large: "2 ^ 53 \<le> n \<Longrightarrow> 2 ^ 53 \<le> round53 n"
  using round53_mag_large [of n] by (simp add: round53_def)

section \<open>Bytes, windows and big-endian values\<close>

lemma uint_byte_bounds: "0 \<le> uint (w :: byte)" "uint (w :: byte) < 256"
  using uint_bounded [of w] by simp_all

lemma ToInt32_small: "0 \<le> a \<Longrightarrow> a < 2 ^ 31 \<Longrightarrow> ToInt32 (Num a) = a"
  by (simp add: ToInt32_def Let_def)

lemma ToInt32_byte: "ToInt32 (Num (uint (w :: byte))) = uint w"
  using uint_byte_bounds [of w] by (intro ToInt32_small) simp_all

lemma and_exp_int: "(x::int) AND 2 ^ n = of_bool (bit x n) * 2 ^ n"
  by (rule bit_eqI) (auto simp: bit_simps)

lemma bit7: "0 \<le> (x::int) \<Longrightarrow> x < 256 \<Longrightarrow> bit x 7 \<longleftrightarrow> 128 \<le> x"
proof -
  assume a: "0 \<le> x" "x < 256"
  have "x div 128 = (if 128 \<le> x then 1 else 0)" using a by presburger
  then show ?thesis by (simp add: bit_iff_odd)
qed

lemma byte_sign_bit: "uint (w :: byte) AND 128 = (if 128 \<le> uint w then 128 else 0)"
  using and_exp_int [of "uint w" 7] bit7 [of "uint w"] uint_byte_bounds [of w] by simp

lemma sign_band: "js_band (Num (uint (w :: byte))) (Num 0x80) = Num (if 128 \<le> uint w then 128 else 0)"
  by (simp add: js_band_def ToInt32_byte ToInt32_small byte_sign_bit)

lemma window_length: "valid x \<Longrightarrow> length (window x) = 8"
  by (simp add: window_def valid_def)

lemma get_window: "valid x \<Longrightarrow> i < 8 \<Longrightarrow> get (buffer x) (offset x + i) = Some (window x ! i)"
  by (simp add: get_def valid_def window_def)

lemma rd_window: "valid x \<Longrightarrow> i < 8 \<Longrightarrow> rd (buffer x) (offset x + i) = Num (uint (window x ! i))"
  by (simp add: rd_def get_window)

lemma be_val_bounds: "0 \<le> be_val ws \<and> be_val ws < 256 ^ length ws"
proof (induction ws)
  case Nil
  show ?case by simp
next
  case (Cons w ws)
  let ?P = "(256::int) ^ length ws"
  have "uint w * ?P + be_val ws < uint w * ?P + ?P" using Cons by simp
  also have "\<dots> = (uint w + 1) * ?P" by (simp add: distrib_right)
  also have "\<dots> \<le> 256 * ?P"
    using uint_byte_bounds [of w] by (intro mult_right_mono) simp_all
  finally have "be_val (w # ws) < 256 ^ length (w # ws)" by simp
  moreover have "0 \<le> be_val (w # ws)" using Cons uint_byte_bounds [of w] by simp
  ultimately show ?case by blast
qed

lemma be_val_head_less:
  assumes "length xs = length ys" "uint x < uint y"
  shows "be_val (x # xs) < be_val (y # ys)"
proof -
  let ?P = "(256::int) ^ length xs"
  have "be_val (x # xs) < uint x * ?P + ?P" using be_val_bounds [of xs] by simp
  also have "\<dots> = (uint x + 1) * ?P" by (simp add: distrib_right)
  also have "\<dots> \<le> uint y * ?P" using assms(2) by (intro mult_right_mono) simp_all
  also have "\<dots> \<le> be_val (y # ys)" using be_val_bounds [of ys] assms(1) by simp
  finally show ?thesis .
qed

lemma js_sub_bytes: "js_sub (Num (uint (a :: byte))) (Num (uint (b :: byte))) = Num (uint a - uint b)"
proof -
  have "uint a - uint b \<le> 255 \<and> uint b - uint a \<le> 255"
    using uint_byte_bounds [of a] uint_byte_bounds [of b] by linarith
  then have "\<bar>uint a - uint b\<bar> \<le> 2 ^ 53"
    by (simp add: abs_le_iff)
  then have "round53 (uint a - uint b) = uint a - uint b" by (rule round53_exact)
  then show ?thesis by (simp add: js_sub_def)
qed

lemma compare_loop_lex:
  assumes "valid a" "valid b"
  shows "i \<le> 8 \<Longrightarrow> \<exists>c. compare_loop a b i = Num c \<and>
     (c < 0 \<longleftrightarrow> be_val (drop i (window a)) < be_val (drop i (window b))) \<and>
     (c = 0 \<longleftrightarrow> be_val (drop i (window a)) = be_val (drop i (window b))) \<and>
     (0 < c \<longleftrightarrow> be_val (drop i (window b)) < be_val (drop i (window a))) \<and>
     compare_loop b a i = Num (- c)"
proof (induction "8 - i" arbitrary: i)
  case 0
  then have "i = 8" by simp
  then show ?case
    using window_length [OF assms(1)] window_length [OF assms(2)]
    by (simp add: compare_loop.simps)
next
  case (Suc k)
  then have i: "i < 8" by simp
  define x where "x = window a ! i"
  define y where "y = window b ! i"
  define xs where "xs = drop (Suc i) (window a)"
  define ys where "ys = drop (Suc i) (window b)"
  have da: "drop i (window a) = x # xs"
    using i window_length [OF assms(1)] by (simp add: x_def xs_def Cons_nth_drop_Suc)
  have db: "drop i (window b) = y # ys"
    using i window_length [OF assms(2)] by (simp add: y_def ys_def Cons_nth_drop_Suc)
  have len: "length xs = length ys"
    using window_length [OF assms(1)] window_length [OF assms(2)] by (simp add: xs_def ys_def)
  have ga: "get (buffer a) (offset a + i) = Some x"
    using get_window [OF assms(1) i] by (simp add: x_def)
  have gb: "get (buffer b) (offset b + i) = Some y"
    using get_window [OF assms(2) i] by (simp add: y_def)
  show ?case
  proof (cases "x = y")
    case True
    have "8 - Suc i = k" "Suc i \<le> 8" using Suc(2) i by simp_all
    from Suc(1) [of "Suc i"] this obtain c where
      c: "compare_loop a b (Suc i) = Num c"
         "c < 0 \<longleftrightarrow> be_val xs < be_val ys"
         "c = 0 \<longleftrightarrow> be_val xs = be_val ys"
         "0 < c \<longleftrightarrow> be_val ys < be_val xs"
         "compare_loop b a (Suc i) = Num (- c)"
      unfolding xs_def ys_def by auto
    have "compare_loop a b i = Num c"
      using i True c(1) ga gb by (subst compare_loop.simps) simp
    moreover have "compare_loop b a i = Num (- c)"
      using i True c(5) ga gb by (subst compare_loop.simps) simp
    ultimately show ?thesis
      using c(2-4) True len by (simp add: da db)
  next
    case False
    then have ne: "uint x \<noteq> uint y" by (simp add: word_uint_eq_iff)
    have "compare_loop a b i = Num (uint x - uint y)"
      using i False ga gb by (subst compare_loop.simps) (simp add: rd_def js_sub_bytes)
    moreover have "compare_loop b a i = Num (- (uint x - uint y))"
      using i False ga gb by (subst compare_loop.simps) (auto simp add: rd_def js_sub_bytes)
    moreover have "uint x < uint y \<Longrightarrow> be_val (x # xs) < be_val (y # ys)"
      using len by (rule be_val_head_less)
    moreover have "uint y < uint x \<Longrightarrow> be_val (y # ys) < be_val (x # xs)"
      using len [symmetric] by (rule be_val_head_less)
    ultimately show ?thesis
      using ne unfolding da db by (intro exI [of _ "uint x - uint y"]) (smt (verit))
  qed
qed

lemma be_val_sign:
  assumes "length ws = 8"
  shows "2 ^ 63 \<le> be_val ws \<longleftrightarrow> 128 \<le> uint (ws ! 0)"
proof -
  obtain w ws' where ws: "ws = w # ws'" "length ws' = 7"
    using assms by (cases ws) simp_all
  have b: "0 \<le> be_val ws'" "be_val ws' < 256 ^ 7"
    using be_val_bounds [of ws'] ws(2) by simp_all
  have "be_val ws = uint w * 72057594037927936 + be_val ws'" by (simp add: ws)
  moreover have "ws ! 0 = w" by (simp add: ws)
  ultimately show ?thesis using b by simp linarith
qed

section \<open>Ordering\<close>

text \<open>
  C5 (compare, equals). For two valid Int64 values \<open>compare\<close> returns a finite number
  whose sign is that of the difference of the signed 64-bit integers the two byte windows
  encode: negative, zero or positive exactly as the first is less than, equal to or
  greater than the second. Swapping the arguments negates the result, and \<open>equals\<close> holds
  exactly when \<open>compare\<close> gives 0.
\<close>

theorem compare_signed_order:
  assumes "valid a" "valid b"
  shows "\<exists>c. compare a b = Num c \<and>
           (c < 0 \<longleftrightarrow> int64_value a < int64_value b) \<and>
           (c = 0 \<longleftrightarrow> int64_value a = int64_value b) \<and>
           (0 < c \<longleftrightarrow> int64_value b < int64_value a) \<and>
           compare b a = Num (- c) \<and>
           (equals a b \<longleftrightarrow> c = 0)"
proof -
  define x where "x = window a ! 0"
  define y where "y = window b ! 0"
  define u where "u = be_val (window a)"
  define v where "v = be_val (window b)"
  have ra: "rd (buffer a) (offset a) = Num (uint x)"
    using rd_window [OF assms(1), of 0] by (simp add: x_def)
  have rb: "rd (buffer b) (offset b) = Num (uint y)"
    using rd_window [OF assms(2), of 0] by (simp add: y_def)
  have sa: "2 ^ 63 \<le> u \<longleftrightarrow> 128 \<le> uint x"
    unfolding u_def x_def using window_length [OF assms(1)] by (rule be_val_sign)
  have sb: "2 ^ 63 \<le> v \<longleftrightarrow> 128 \<le> uint y"
    unfolding v_def y_def using window_length [OF assms(2)] by (rule be_val_sign)
  have bu: "0 \<le> u" "u < 2 ^ 64"
    using be_val_bounds [of "window a"] window_length [OF assms(1)] by (simp_all add: u_def)
  have bv: "0 \<le> v" "v < 2 ^ 64"
    using be_val_bounds [of "window b"] window_length [OF assms(2)] by (simp_all add: v_def)
  have ia: "int64_value a = (if 128 \<le> uint x then u - 2 ^ 64 else u)"
    using sa by (simp add: int64_value_def Let_def u_def [symmetric])
  have ib: "int64_value b = (if 128 \<le> uint y then v - 2 ^ 64 else v)"
    using sb by (simp add: int64_value_def Let_def v_def [symmetric])
  have eq: "equals a b \<longleftrightarrow> c = 0" if "compare a b = Num c" for c
    using that by (simp add: equals_def)
  show ?thesis
  proof (cases "(128 \<le> uint x) = (128 \<le> uint y)")
    case True
    from compare_loop_lex [OF assms, of 0] obtain c where
      c: "compare_loop a b 0 = Num c" "c < 0 \<longleftrightarrow> u < v" "c = 0 \<longleftrightarrow> u = v" "0 < c \<longleftrightarrow> v < u"
         "compare_loop b a 0 = Num (- c)"
      unfolding u_def v_def by auto
    have "compare a b = Num c"
      using True c(1) by (simp add: compare_def ra rb sign_band)
    moreover have "compare b a = Num (- c)"
      using True c(5) by (simp add: compare_def ra rb sign_band)
    ultimately show ?thesis
      using c(2-4) True eq [of c] by (intro exI [of _ c]) (simp add: ia ib)
  next
    case False
    have "compare a b = Num (uint y - uint x)"
      using False by (auto simp add: compare_def ra rb sign_band js_sub_bytes)
    moreover have "compare b a = Num (- (uint y - uint x))"
      using False by (auto simp add: compare_def ra rb sign_band js_sub_bytes)
    ultimately show ?thesis
      using False bu bv eq [of "uint y - uint x"]
      by (intro exI [of _ "uint y - uint x"]) (auto simp add: ia ib)
  qed
qed

theorem compare_signed_order_witness:
  "valid \<lparr>buffer = [0x80, 0, 0, 0, 0, 0, 0, 0], offset = 0\<rparr> \<and>
   valid \<lparr>buffer = [0x7f, 0xff, 0xff, 0xff, 0xff, 0xff, 0xff, 0xff, 0], offset = 0\<rparr> \<and>
   (\<exists>c. compare \<lparr>buffer = [0x80, 0, 0, 0, 0, 0, 0, 0], offset = 0\<rparr>
               \<lparr>buffer = [0x7f, 0xff, 0xff, 0xff, 0xff, 0xff, 0xff, 0xff, 0], offset = 0\<rparr> = Num c \<and>
        c < 0)"
proof -
  let ?a = "\<lparr>buffer = [0x80, 0, 0, 0, 0, 0, 0, 0], offset = 0\<rparr> :: Int64"
  let ?b = "\<lparr>buffer = [0x7f, 0xff, 0xff, 0xff, 0xff, 0xff, 0xff, 0xff, 0], offset = 0\<rparr> :: Int64"
  have va: "valid ?a" and vb: "valid ?b"
    by (simp_all add: valid_def)
  have "int64_value ?a < int64_value ?b"
    by (simp add: int64_value_def window_def)
  with compare_signed_order [OF va vb] va vb show ?thesis
    by blast
qed

section \<open>The decimal string of a negative value\<close>

text \<open>
  C1 (decimal round trip). The claim asks that \<open>fromDecimalString(s).toDecimalString()\<close>
  gives back every canonical decimal string \<open>s\<close> of a signed 64-bit integer. At
  \<open>s = "-1"\<close> the source answers \<open>"-000000000001"\<close>: the bytes are all \<open>0xff\<close>, the
  test \<open>!~b[o]\<close> for a sign byte of all ones never holds (\<open>~255\<close> is \<open>-256\<close>, not 0), so
  the value is rendered by the branch for large magnitudes, which pads the low eleven
  digits with zeros behind a high part of \<open>0\<close>.
\<close>

theorem decimal_round_trip_minus_one:
  "map_sum id toDecimalString (fromDecimalString ''-1'') = Inr ''-000000000001''"
proof -
  let ?x = "\<lparr>buffer = [0xff, 0xff, 0xff, 0xff, 0xff, 0xff, 0xff, 0xff], offset = 0\<rparr> :: Int64"
  have n: "StringToNumber ''-1'' = Num (- 1)"
    by code_simp
  have d: "decompose_number (Num (- 1)) = Inr (True, Num 0, Num 1)"
    by code_simp
  have c: "copy_bytes \<lparr>buffer = replicate 8 0, offset = 0\<rparr> True (Num 0) (Num 1) = ?x"
    by code_simp
  have "fromDecimalString ''-1'' = Inr ?x"
    by (simp add: fromDecimalString_def n d c)
  moreover have "toDecimalString ?x = ''-000000000001''"
    by code_simp
  ultimately show ?thesis
    by simp
qed

text \<open>
  C2 (small magnitudes delegate to \<open>toString\<close>). The value \<open>-1\<close> has its top eleven bits
  all set, and \<open>toString()\<close> renders it as \<open>"-1"\<close>; \<open>toDecimalString()\<close> does not
  delegate and returns \<open>"-000000000001"\<close>.
\<close>

theorem toDecimalString_all_ones_not_delegated:
  "toDecimalString \<lparr>buffer = [0xff, 0xff, 0xff, 0xff, 0xff, 0xff, 0xff, 0xff], offset = 0\<rparr>
     = ''-000000000001'' \<and>
   toString \<lparr>buffer = [0xff, 0xff, 0xff, 0xff, 0xff, 0xff, 0xff, 0xff], offset = 0\<rparr> 10
     = ''-1''"
  by code_simp

text \<open>
  C10 (the result depends on the eight logical bytes only). The same eight bytes
  \<open>80 00 00 00 00 00 00 00\<close> are rendered as \<open>"-9223372036854775808"\<close> at offset 0 and
  as \<open>"-NaN00000000NaN"\<close> at offset 1 of a nine-byte buffer: the magnitude is built in a
  fresh eight-byte buffer, which is then read at \<open>o + 7 = 8\<close>, past its end.
\<close>

theorem toDecimalString_offset_dependent:
  "valid \<lparr>buffer = [0x00, 0x80, 0, 0, 0, 0, 0, 0, 0], offset = 1\<rparr> \<and>
   window \<lparr>buffer = [0x00, 0x80, 0, 0, 0, 0, 0, 0, 0], offset = 1\<rparr>
     = window \<lparr>buffer = [0x80, 0, 0, 0, 0, 0, 0, 0], offset = 0\<rparr> \<and>
   toDecimalString \<lparr>buffer = [0x80, 0, 0, 0, 0, 0, 0, 0], offset = 0\<rparr>
     = ''-9223372036854775808'' \<and>
   toDecimalString \<lparr>buffer = [0x00, 0x80, 0, 0, 0, 0, 0, 0, 0], offset = 1\<rparr>
     = ''-NaN00000000NaN''"
  by code_simp

end
